theory Spec2Isabelle
  imports Main
begin

section \<open>The Cloudflare API fetch wrapper (cfetch/internal.ts)\<close>

text \<open>
  A shallow embedding of \<^verbatim>\<open>packages/wrangler/src/cfetch/internal.ts\<close>.

  JavaScript strings are modelled as \<^typ>\<open>string\<close>, one list element per UTF-16 code
  unit, so that \<^verbatim>\<open>length\<close> and \<^verbatim>\<open>substring\<close> count what the source counts.
  A \<^verbatim>\<open>Record<string, string>\<close> is a map from property names to values; property
  names are compared exactly (case-sensitively), as JavaScript does.

  The module's collaborators (login, credential lookup, the base URL, the package
  version, the network, the JSON parser, the \<^verbatim>\<open>Response\<close> constructor) are not part of
  the file. They are fields of an environment record, and each async function of the
  source becomes a function from the environment and its arguments to the list of
  effects it performs, in order, paired with its outcome: \<open>Inl\<close> a thrown error,
  \<open>Inr\<close> the value returned. Exceptions raised inside a collaborator other than the
  JSON parser are outside the model.
\<close>

subsection \<open>Strings\<close>

definition startsWith :: "string \<Rightarrow> string \<Rightarrow> bool" where
  "startsWith s p = (take (length p) s = p)"

text \<open>Decimal rendering of a non-negative integer, as a template literal renders it.\<close>

fun toString :: "nat \<Rightarrow> string" where
  "toString n =
     (if n < 10 then [''0123456789'' ! n]
      else toString (n div 10) @ [''0123456789'' ! (n mod 10)])"

declare toString.simps [simp del]

subsection \<open>Data\<close>

type_synonym Record = "string \<rightharpoonup> string"

text \<open>
  \<^verbatim>\<open>HeadersInit\<close>: a \<^verbatim>\<open>Headers\<close> instance (given by the name/value pairs its
  \<^verbatim>\<open>entries()\<close> yields), an array of pairs, a plain object, or \<^verbatim>\<open>undefined\<close>.
\<close>

datatype HeadersInit =
    HeadersInstance "(string \<times> string) list"
  | HeadersArray "(string \<times> string) list"
  | HeadersRecord Record
  | HeadersUndefined

datatype ApiCredentials =
    ApiToken string
  | AuthKeyEmail string string

text \<open>
  A file object, by the name, the parts and the type it was made with; a part is a
  string or another file object.
\<close>

datatype File = File (file_name: string) (file_bits: "BlobPart list") (file_type: string)
  and BlobPart = StringPart string | FilePart File

text \<open>
  An entry of a form is a string or a file object. Whether a file object passes the
  test \<^verbatim>\<open>instanceof File\<close> against the class the module imports is decided by the
  runtime that built the form: \<open>FileValue\<close> is a file object that passes it,
  \<open>FileLikeValue\<close> one that does not.
\<close>

datatype FormDataEntryValue = FileValue File | FileLikeValue File | StringValue string

type_synonym FormData = "(string \<times> FormDataEntryValue) list"

datatype BodyInit = FormDataBody FormData | OtherBody string

datatype AbortSignal = AbortSignal nat

record RequestInit =
  init_method :: "string option"
  init_headers :: HeadersInit
  init_body :: "BodyInit option"
  init_signal :: "AbortSignal option"

text \<open>The two arguments of the call to \<^verbatim>\<open>fetch\<close>: the URL and the init object.\<close>

record Request =
  req_url :: string
  req_method :: "string option"
  req_headers :: Record
  req_body :: "BodyInit option"
  req_signal :: "AbortSignal option"

text \<open>
  The \<^verbatim>\<open>Headers\<close> of a response: its case-insensitive \<^verbatim>\<open>get\<close> and its
  \<^verbatim>\<open>entries()\<close>.
\<close>

record Headers =
  hdr_get :: "string \<Rightarrow> string option"
  hdr_entries :: "(string \<times> string) list"

datatype ReadableStream = ReadableStream

text \<open>
  A response, by what the source reads from it: \<open>resp_text\<close>, \<open>resp_arrayBuffer\<close>
  are what \<^verbatim>\<open>text()\<close> and \<^verbatim>\<open>arrayBuffer()\<close> resolve to; \<open>resp_formData\<close> is
  \<open>None\<close> when the object has no \<^verbatim>\<open>formData\<close> method and otherwise holds the
  entries of the form that \<^verbatim>\<open>formData()\<close> resolves to.
\<close>

record Response =
  resp_ok :: bool
  resp_status :: nat
  resp_statusText :: string
  resp_headers :: Headers
  resp_body :: "ReadableStream option"
  resp_text :: string
  resp_arrayBuffer :: "nat list"
  resp_formData :: "FormData option"

datatype json =
    JNull
  | JBool bool
  | JNumber int
  | JString string
  | JArray "json list"
  | JObject "(string \<times> json) list"

datatype error =
    AssertionError string
  | UserError string
  | Error string
  | APIError string "string list" nat
  | ParseError
  | TypeError

text \<open>
  \<open>APIError text notes status\<close> is the \<^verbatim>\<open>APIError\<close> of the source, its notes given
  by their texts. \<open>ParseError\<close> is whatever \<^verbatim>\<open>parseJSON\<close> throws; \<open>TypeError\<close> is
  the call of a method that is not there.
\<close>

record Env =
  loginOrRefreshIfRequired :: bool
  requireApiToken :: ApiCredentials
  getCloudflareApiBaseUrl :: string
  wranglerVersion :: string
  fetch :: "Request \<Rightarrow> Response"
  parseJSON :: "string \<Rightarrow> json option"
  newResponse :: "string \<Rightarrow> Response \<Rightarrow> Response"
  fileType :: "string \<Rightarrow> string"

text \<open>
  \<^verbatim>\<open>new File(fileBits, fileName, options)\<close>. The name and the parts are the ones
  given. The type of the new file is empty without a \<^verbatim>\<open>type\<close> option; with one it
  is what the \<^verbatim>\<open>File\<close> class of the library makes of the option, \<open>fileType\<close> of
  the environment.
\<close>

definition newFile :: "Env \<Rightarrow> BlobPart list \<Rightarrow> string \<Rightarrow> string option \<Rightarrow> File" where
  "newFile env fileBits fileName typeOption =
     File fileName fileBits (case typeOption of None \<Rightarrow> [] | Some t \<Rightarrow> fileType env t)"

text \<open>
  The effects. A logged argument is a string, a number, \<^verbatim>\<open>null\<close>, or the text that
  \<^verbatim>\<open>JSON.stringify\<close> or \<^verbatim>\<open>new Response(body).text()\<close> makes of a value, kept as
  that value.
\<close>

datatype log_arg =
    Str string
  | Num nat
  | Null
  | JsonHeaders Record
  | JsonInit RequestInit
  | BodyText FormData

datatype event =
    CallLoginOrRefresh
  | CallRequireApiToken
  | LogDebug "log_arg list"
  | LogDebugWithSanitization string "log_arg list"
  | ConsoleError bool "ReadableStream option"
  | CallFetch Request

type_synonym 'a outcome = "event list \<times> (error + 'a)"

record WorkerScript =
  entrypoint :: string
  modules :: "File list"

subsection \<open>Helpers of the module\<close>

definition truncate :: "string \<Rightarrow> nat \<Rightarrow> string" where
  "truncate text maxLength =
     (if length text \<le> maxLength then text
      else take maxLength text @ ''... (length = '' @ toString (length text) @ '')'')"

definition fromEntries :: "(string \<times> string) list \<Rightarrow> Record" where
  "fromEntries es = fold (\<lambda>(k, v) m. m(k \<mapsto> v)) es Map.empty"

definition cloneHeaders :: "HeadersInit \<Rightarrow> Record" where
  "cloneHeaders headers =
     (case headers of
        HeadersInstance es \<Rightarrow> fromEntries es
      | HeadersArray es \<Rightarrow> fromEntries es
      | HeadersRecord m \<Rightarrow> m
      | HeadersUndefined \<Rightarrow> Map.empty)"

definition addAuthorizationHeaderIfUnspecified :: "Record \<Rightarrow> ApiCredentials \<Rightarrow> Record" where
  "addAuthorizationHeaderIfUnspecified headers auth =
     (if headers ''Authorization'' = None then
        (case auth of
           ApiToken apiToken \<Rightarrow> headers(''Authorization'' \<mapsto> ''Bearer '' @ apiToken)
         | AuthKeyEmail authKey authEmail \<Rightarrow>
             headers(''X-Auth-Key'' \<mapsto> authKey, ''X-Auth-Email'' \<mapsto> authEmail))
      else headers)"

definition addUserAgent :: "Env \<Rightarrow> Record \<Rightarrow> Record" where
  "addUserAgent env headers = headers(''User-Agent'' \<mapsto> ''wrangler/'' @ wranglerVersion env)"

text \<open>
  \<^verbatim>\<open>requireLoggedIn\<close>: asks the collaborator once and throws unless it says the
  user is logged in.
\<close>

definition requireLoggedIn :: "Env \<Rightarrow> unit outcome" where
  "requireLoggedIn env =
     (if loginOrRefreshIfRequired env then ([CallLoginOrRefresh], Inr ())
      else ([CallLoginOrRefresh], Inl (UserError ''Not logged in.'')))"

subsection \<open>performApiFetch and fetchInternal\<close>

text \<open>
  \<open>queryParams\<close> is the optional \<^verbatim>\<open>URLSearchParams\<close>, given by its \<^verbatim>\<open>toString()\<close>.
  In the object passed to \<^verbatim>\<open>fetch\<close>, \<^verbatim>\<open>...init\<close> comes after \<^verbatim>\<open>method\<close> and
  before \<^verbatim>\<open>headers\<close> and \<^verbatim>\<open>signal\<close>: the method is the caller's when there is
  one, the headers and the signal are always the ones computed here. A \<^verbatim>\<open>method\<close>
  property that is there with the value \<^verbatim>\<open>undefined\<close> is not told apart from one
  that is absent.
\<close>

definition performApiFetch ::
  "Env \<Rightarrow> string \<Rightarrow> RequestInit \<Rightarrow> string option \<Rightarrow> AbortSignal option \<Rightarrow> Response outcome"
where
  "performApiFetch env resource init queryParams abortSignal =
     (let method = (case init_method init of Some m \<Rightarrow> m | None \<Rightarrow> ''GET'') in
      if \<not> startsWith resource ''/'' then
        ([], Inl (AssertionError
           (''CF API fetch - resource path must start with a \"/\" but got \"'' @ resource @ ''\"'')))
      else
        (case requireLoggedIn env of
           (t1, Inl e) \<Rightarrow> (t1, Inl e)
         | (t1, Inr _) \<Rightarrow>
            (let apiToken = requireApiToken env;
                 headers = addUserAgent env
                   (addAuthorizationHeaderIfUnspecified (cloneHeaders (init_headers init)) apiToken);
                 queryString = (case queryParams of Some q \<Rightarrow> ''?'' @ q | None \<Rightarrow> []);
                 logHeaders = (cloneHeaders (HeadersRecord headers))(''Authorization'' := None);
                 request = \<lparr> req_url = getCloudflareApiBaseUrl env @ resource @ queryString,
                             req_method = Some method,
                             req_headers = headers,
                             req_body = init_body init,
                             req_signal = abortSignal \<rparr>
             in (t1 @
                 [CallRequireApiToken,
                  LogDebug [Str (''-- START CF API REQUEST: '' @ method @ '' '' @
                            getCloudflareApiBaseUrl env @ resource @ queryString)],
                  LogDebugWithSanitization ''HEADERS:'' [JsonHeaders logHeaders],
                  LogDebugWithSanitization ''INIT:'' [JsonInit init]] @
                 (case init_body init of
                    Some (FormDataBody form) \<Rightarrow>
                      [LogDebugWithSanitization ''BODY:'' [BodyText form, Null, Num 2]]
                  | _ \<Rightarrow> []) @
                 [LogDebug [Str ''-- END CF API REQUEST''],
                  CallFetch request],
                 Inr (fetch env request)))))"

definition emptyBody :: string where
  "emptyBody = ''{\"result\": {}, \"success\": true, \"errors\": [], \"messages\": []}''"

definition fetchInternal ::
  "Env \<Rightarrow> string \<Rightarrow> RequestInit \<Rightarrow> string option \<Rightarrow> AbortSignal option \<Rightarrow> json outcome"
where
  "fetchInternal env resource init queryParams abortSignal =
     (let method = (case init_method init of Some m \<Rightarrow> m | None \<Rightarrow> ''GET'') in
      case performApiFetch env resource init queryParams abortSignal of
        (t1, Inl e) \<Rightarrow> (t1, Inl e)
      | (t1, Inr response) \<Rightarrow>
         (let jsonText = resp_text response;
              logHeaders = (cloneHeaders (HeadersInstance (hdr_entries (resp_headers response))))
                             (''Authorization'' := None);
              t2 = t1 @
                [LogDebug [Str ''-- START CF API RESPONSE:'',
                           Str (resp_statusText response), Num (resp_status response)],
                 LogDebugWithSanitization ''HEADERS:'' [JsonHeaders logHeaders],
                 LogDebugWithSanitization ''RESPONSE:'' [Str jsonText],
                 LogDebug [Str ''-- END CF API RESPONSE'']]
          in if jsonText = [] \<and> (resp_status response = 204 \<or> resp_status response = 205) then
               (case parseJSON env emptyBody of
                  Some v \<Rightarrow> (t2, Inr v)
                | None \<Rightarrow> (t2, Inl ParseError))
             else
               (case parseJSON env jsonText of
                  Some v \<Rightarrow> (t2, Inr v)
                | None \<Rightarrow>
                    (t2, Inl (APIError ''Received a malformed response from the API''
                       [truncate jsonText 100,
                        method @ '' '' @ resource @ '' -> '' @ toString (resp_status response) @
                          '' '' @ resp_statusText response]
                       (resp_status response))))))"

subsection \<open>The endpoints that do not answer in JSON\<close>

definition fetchKVGetValue :: "Env \<Rightarrow> string \<Rightarrow> string \<Rightarrow> string \<Rightarrow> (nat list) outcome" where
  "fetchKVGetValue env accountId namespaceId key =
     (case requireLoggedIn env of
        (t1, Inl e) \<Rightarrow> (t1, Inl e)
      | (t1, Inr _) \<Rightarrow>
         (let auth = requireApiToken env;
              headers = addAuthorizationHeaderIfUnspecified Map.empty auth;
              resource = getCloudflareApiBaseUrl env @ ''/accounts/'' @ accountId @
                ''/storage/kv/namespaces/'' @ namespaceId @ ''/values/'' @ key;
              request = \<lparr> req_url = resource, req_method = Some ''GET'', req_headers = headers,
                          req_body = None, req_signal = None \<rparr>;
              response = fetch env request;
              t2 = t1 @ [CallRequireApiToken, CallFetch request]
          in if resp_ok response then (t2, Inr (resp_arrayBuffer response))
             else (t2, Inl (Error (''Failed to fetch '' @ resource @ '' - '' @
                     toString (resp_status response) @ '': '' @ resp_statusText response @ '');'')))))"

definition fetchR2Objects :: "Env \<Rightarrow> string \<Rightarrow> RequestInit \<Rightarrow> (Response option) outcome" where
  "fetchR2Objects env resource bodyInit =
     (case requireLoggedIn env of
        (t1, Inl e) \<Rightarrow> (t1, Inl e)
      | (t1, Inr _) \<Rightarrow>
         (let auth = requireApiToken env;
              headers = addUserAgent env
                (addAuthorizationHeaderIfUnspecified (cloneHeaders (init_headers bodyInit)) auth);
              request = \<lparr> req_url = getCloudflareApiBaseUrl env @ resource,
                          req_method = init_method bodyInit, req_headers = headers,
                          req_body = init_body bodyInit, req_signal = init_signal bodyInit \<rparr>;
              response = fetch env request;
              t2 = t1 @ [CallRequireApiToken, CallFetch request]
          in if resp_ok response \<and> resp_body response \<noteq> None then (t2, Inr (Some response))
             else if resp_status response = 404 then (t2, Inr None)
             else (t2, Inl (Error (''Failed to fetch '' @ resource @ '' - '' @
                     toString (resp_status response) @ '': '' @ resp_statusText response @ '');'')))))"

definition fetchWorker :: "Env \<Rightarrow> string \<Rightarrow> RequestInit \<Rightarrow> WorkerScript outcome" where
  "fetchWorker env resource bodyInit =
     (case requireLoggedIn env of
        (t1, Inl e) \<Rightarrow> (t1, Inl e)
      | (t1, Inr _) \<Rightarrow>
         (let auth = requireApiToken env;
              headers = addUserAgent env
                (addAuthorizationHeaderIfUnspecified (cloneHeaders (init_headers bodyInit)) auth);
              request = \<lparr> req_url = getCloudflareApiBaseUrl env @ resource,
                          req_method = init_method bodyInit, req_headers = headers,
                          req_body = init_body bodyInit, req_signal = init_signal bodyInit \<rparr>;
              response = fetch env request;
              t2 = t1 @ [CallRequireApiToken, CallFetch request]
          in if \<not> resp_ok response \<or> resp_body response = None then
               (t2 @ [ConsoleError (resp_ok response) (resp_body response)],
                Inl (Error (''Failed to fetch '' @ resource @ '' - '' @
                     toString (resp_status response) @ '': '' @ resp_statusText response @ '');'')))
             else
               (let usesModules =
                      (case hdr_get (resp_headers response) ''content-type'' of
                         Some contentType \<Rightarrow> startsWith contentType ''multipart''
                       | None \<Rightarrow> False)
                in if usesModules then
                     (let response' =
                            (if resp_formData response = None
                             then newResponse env (resp_text response) response
                             else response)
                      in case resp_formData response' of
                           None \<Rightarrow> (t2, Inl TypeError)
                         | Some form \<Rightarrow>
                            (let files = map (\<lambda>(filename, contents).
                                   case contents of
                                     FileValue f \<Rightarrow> f
                                   | FileLikeValue f \<Rightarrow> newFile env [FilePart f] filename None
                                   | StringValue s \<Rightarrow> newFile env [StringPart s] filename None)
                                   form
                             in (t2, Inr \<lparr> entrypoint =
                                            (case hdr_get (resp_headers response') ''cf-entrypoint'' of
                                               Some e \<Rightarrow> e
                                             | None \<Rightarrow> ''src/index.js''),
                                          modules = files \<rparr>)))
                   else
                     (let contents = resp_text response;
                          file = newFile env [StringPart contents] ''index.js'' (Some ''text'')
                      in (t2, Inr \<lparr> entrypoint = ''index.js'', modules = [file] \<rparr>)))))"

subsection \<open>Reading a trace\<close>

text \<open>The requests handed to \<^verbatim>\<open>fetch\<close>, and the header objects handed to the logger.\<close>

fun fetched :: "event list \<Rightarrow> Request list" where
  "fetched [] = []"
| "fetched (CallFetch r # es) = r # fetched es"
| "fetched (_ # es) = fetched es"

fun loggedHeaders :: "event list \<Rightarrow> Record list" where
  "loggedHeaders [] = []"
| "loggedHeaders (LogDebugWithSanitization label [JsonHeaders h] # es) =
     (if label = ''HEADERS:'' then h # loggedHeaders es else loggedHeaders es)"
| "loggedHeaders (_ # es) = loggedHeaders es"

subsection \<open>The vocabulary of the specification\<close>

text \<open>
  The names of HTTP headers do not depend on the case of their letters. A request
  carries a header when its headers hold an entry whose name is that of the header up
  to the case of the ASCII letters.
\<close>

definition asciiLower :: "char \<Rightarrow> char" where
  "asciiLower c =
     (case map_of (zip ''ABCDEFGHIJKLMNOPQRSTUVWXYZ'' ''abcdefghijklmnopqrstuvwxyz'') c of
        Some l \<Rightarrow> l
      | None \<Rightarrow> c)"

definition lowerName :: "string \<Rightarrow> string" where
  "lowerName name = map asciiLower name"

definition hasHeader :: "string \<Rightarrow> Record \<Rightarrow> bool" where
  "hasHeader name h = (\<exists>k \<in> dom h. lowerName k = lowerName name)"

text \<open>
  The two authentication forms of the specification, read off the headers of a
  request: token authentication is an \<^verbatim>\<open>Authorization\<close> header, key authentication
  is the pair \<^verbatim>\<open>X-Auth-Key\<close>, \<^verbatim>\<open>X-Auth-Email\<close>. \<open>exactlyOneAuth\<close> says that
  the form of the credential is present and the other form is not.
\<close>

definition tokenAuth :: "Record \<Rightarrow> bool" where
  "tokenAuth h = hasHeader ''Authorization'' h"

definition keyAuth :: "Record \<Rightarrow> bool" where
  "keyAuth h = (hasHeader ''X-Auth-Key'' h \<and> hasHeader ''X-Auth-Email'' h)"

definition exactlyOneAuth :: "ApiCredentials \<Rightarrow> Record \<Rightarrow> bool" where
  "exactlyOneAuth auth h =
     (case auth of
        ApiToken _ \<Rightarrow> tokenAuth h \<and> \<not> keyAuth h
      | AuthKeyEmail _ _ \<Rightarrow> keyAuth h \<and> \<not> tokenAuth h)"

text \<open>
  The caller's headers leave the choice of the form to the credential: they hold no
  \<^verbatim>\<open>Authorization\<close> header and, when the credential is a token, not the key pair.
\<close>

definition leavesAuthToCredential :: "ApiCredentials \<Rightarrow> Record \<Rightarrow> bool" where
  "leavesAuthToCredential auth h =
     (\<not> tokenAuth h \<and> (case auth of ApiToken _ \<Rightarrow> \<not> keyAuth h | AuthKeyEmail _ _ \<Rightarrow> True))"

definition headerValue :: "string \<Rightarrow> Record \<Rightarrow> string option" where
  "headerValue name h = h name"


text \<open>The vendor envelope: a JSON object with the four fields.\<close>

definition isEnvelope :: "json \<Rightarrow> bool" where
  "isEnvelope j =
     (case j of
        JObject members \<Rightarrow>
          map_of members ''result'' \<noteq> None \<and> map_of members ''success'' \<noteq> None \<and>
          map_of members ''errors'' \<noteq> None \<and> map_of members ''messages'' \<noteq> None
      | _ \<Rightarrow> False)"


subsection \<open>Sample inputs\<close>

text \<open>
  A logged-in environment with a given credential whose network answers every request
  with a given response, whose parser knows two texts, the empty array and the empty
  envelope, and whose \<^verbatim>\<open>File\<close> class keeps a type option only when it has a slash.
\<close>

definition sampleHeaders :: "(string \<times> string) list \<Rightarrow> Headers" where
  "sampleHeaders es = \<lparr> hdr_get = map_of es, hdr_entries = es \<rparr>"

definition sampleResponse :: "bool \<Rightarrow> nat \<Rightarrow> string \<Rightarrow> string \<Rightarrow> Response" where
  "sampleResponse ok status statusText body =
     \<lparr> resp_ok = ok, resp_status = status, resp_statusText = statusText,
       resp_headers = sampleHeaders [],
       resp_body = Some ReadableStream, resp_text = body, resp_arrayBuffer = [104, 105],
       resp_formData = Some [] \<rparr>"

definition sampleParse :: "string \<Rightarrow> json option" where
  "sampleParse s =
     (if s = ''[]'' then Some (JArray [])
      else if s = emptyBody then
        Some (JObject [(''result'', JObject []), (''success'', JBool True),
                       (''errors'', JArray []), (''messages'', JArray [])])
      else None)"

definition sampleEnv :: "ApiCredentials \<Rightarrow> Response \<Rightarrow> Env" where
  "sampleEnv auth response =
     \<lparr> loginOrRefreshIfRequired = True, requireApiToken = auth,
       getCloudflareApiBaseUrl = ''https://api.cloudflare.com/client/v4'',
       wranglerVersion = ''3.0.0'',
       fetch = (\<lambda>_. response),
       parseJSON = sampleParse,
       newResponse = (\<lambda>body r. r\<lparr> resp_text := body \<rparr>),
       fileType = (\<lambda>t. if CHR ''/'' \<in> set t then t else []) \<rparr>"

definition sampleInit :: "HeadersInit \<Rightarrow> RequestInit" where
  "sampleInit headers =
     \<lparr> init_method = None, init_headers = headers, init_body = None, init_signal = None \<rparr>"

definition samplePage :: string where
  "samplePage = ''<!DOCTYPE html><html><head><title>502 Bad Gateway</title></head><body>'' @
                ''<h1>502 Bad Gateway</h1><p>cloudflare</p></body></html>''"

definition sampleModules :: FormData where
  "sampleModules =
     [(''index.js'',
         FileLikeValue (File ''blob'' [StringPart ''export default {}'']
                          ''application/javascript+module'')),
      (''lib.wasm'', FileValue (File ''lib.wasm'' [StringPart ''asm''] ''application/wasm'')),
      (''README'', StringValue ''hello'')]"

definition sampleMultipart :: "(string \<times> string) list \<Rightarrow> Response" where
  "sampleMultipart hs =
     (sampleResponse True 200 ''OK'' ''--b--'')
       \<lparr> resp_headers := sampleHeaders hs, resp_formData := Some sampleModules \<rparr>"

section \<open>Properties\<close>

subsection \<open>Auxiliary facts\<close>

lemma fetched_append: "fetched (xs @ ys) = fetched xs @ fetched ys"
  by (induction xs rule: fetched.induct) simp_all

lemma loggedHeaders_append: "loggedHeaders (xs @ ys) = loggedHeaders xs @ loggedHeaders ys"
  by (induction xs rule: loggedHeaders.induct) simp_all

lemma toString_digits:
  "toString 200 = ''200''" "toString 204 = ''204''" "toString 404 = ''404''"
  "toString 500 = ''500''" "toString 502 = ''502''" "toString 125 = ''125''"
  by (simp_all add: toString.simps)

lemma fetched_performApiFetch:
  "fetched (fst (performApiFetch env resource init queryParams abortSignal)) =
     (if startsWith resource ''/'' \<and> loginOrRefreshIfRequired env then
        [\<lparr> req_url = getCloudflareApiBaseUrl env @ resource @
                       (case queryParams of Some q \<Rightarrow> ''?'' @ q | None \<Rightarrow> []),
            req_method = Some (case init_method init of Some m \<Rightarrow> m | None \<Rightarrow> ''GET''),
            req_headers = addUserAgent env
              (addAuthorizationHeaderIfUnspecified (cloneHeaders (init_headers init))
                 (requireApiToken env)),
            req_body = init_body init,
            req_signal = abortSignal \<rparr>]
      else [])"
  by (simp add: performApiFetch_def requireLoggedIn_def Let_def fetched_append
      split: option.splits BodyInit.splits)

lemma fetched_fetchKVGetValue:
  "fetched (fst (fetchKVGetValue env accountId namespaceId key)) =
     (if loginOrRefreshIfRequired env then
        [\<lparr> req_url = getCloudflareApiBaseUrl env @ ''/accounts/'' @ accountId @
                ''/storage/kv/namespaces/'' @ namespaceId @ ''/values/'' @ key,
            req_method = Some ''GET'',
            req_headers = addAuthorizationHeaderIfUnspecified Map.empty (requireApiToken env),
            req_body = None, req_signal = None \<rparr>]
      else [])"
  by (simp add: fetchKVGetValue_def requireLoggedIn_def Let_def)

lemma fetched_fetchR2Objects:
  "fetched (fst (fetchR2Objects env resource bodyInit)) =
     (if loginOrRefreshIfRequired env then
        [\<lparr> req_url = getCloudflareApiBaseUrl env @ resource,
            req_method = init_method bodyInit,
            req_headers = addUserAgent env
              (addAuthorizationHeaderIfUnspecified (cloneHeaders (init_headers bodyInit))
                 (requireApiToken env)),
            req_body = init_body bodyInit, req_signal = init_signal bodyInit \<rparr>]
      else [])"
  by (simp add: fetchR2Objects_def requireLoggedIn_def Let_def)

lemma fetched_fetchWorker:
  "fetched (fst (fetchWorker env resource bodyInit)) =
     (if loginOrRefreshIfRequired env then
        [\<lparr> req_url = getCloudflareApiBaseUrl env @ resource,
            req_method = init_method bodyInit,
            req_headers = addUserAgent env
              (addAuthorizationHeaderIfUnspecified (cloneHeaders (init_headers bodyInit))
                 (requireApiToken env)),
            req_body = init_body bodyInit, req_signal = init_signal bodyInit \<rparr>]
      else [])"
  by (simp add: fetchWorker_def requireLoggedIn_def Let_def fetched_append split: option.splits)

lemma fetched_fetchInternal:
  "fetched (fst (fetchInternal env resource init queryParams abortSignal)) =
   fetched (fst (performApiFetch env resource init queryParams abortSignal))"
  by (simp add: fetchInternal_def Let_def fetched_append split: prod.splits sum.splits option.splits)

lemma snd_performApiFetch:
  "snd (performApiFetch env resource init queryParams abortSignal) = Inr response \<Longrightarrow>
   \<exists>t. performApiFetch env resource init queryParams abortSignal = (t, Inr response)"
  by (metis prod.collapse)

lemma sampleParse_facts:
  "sampleParse ''nope'' = None"
  "sampleParse ''[]'' = Some (JArray [])"
  "sampleParse ''{\"result\": {}, \"success\": true, \"errors\": [], \"messages\": []}'' =
     Some (JObject [(''result'', JObject []), (''success'', JBool True),
                    (''errors'', JArray []), (''messages'', JArray [])])"
  by (simp_all add: sampleParse_def emptyBody_def)

lemma samplePage_facts:
  "length samplePage = 125"
  "sampleParse samplePage = None"
  "samplePage \<noteq> []"
  "take 100 samplePage =
     ''<!DOCTYPE html><html><head><title>502 Bad Gateway</title></head><body>'' @
     ''<h1>502 Bad Gateway</h1><p>clo''"
  "truncate samplePage 100 =
     ''<!DOCTYPE html><html><head><title>502 Bad Gateway</title></head><body>'' @
     ''<h1>502 Bad Gateway</h1><p>clo... (length = 125)''"
  by code_simp+

subsection \<open>Authentication headers\<close>

lemma lowerName_facts:
  "lowerName ''Authorization'' = ''authorization''"
  "lowerName ''X-Auth-Key'' = ''x-auth-key''"
  "lowerName ''X-Auth-Email'' = ''x-auth-email''"
  "lowerName ''User-Agent'' = ''user-agent''"
  "lowerName ''authorization'' = ''authorization''"
  "lowerName ''x-auth-key'' = ''x-auth-key''"
  "lowerName ''x-auth-email'' = ''x-auth-email''"
  by (simp_all add: lowerName_def asciiLower_def)

lemma hasHeader_empty: "\<not> hasHeader name Map.empty"
  by (simp add: hasHeader_def)

lemma hasHeader_upd:
  "hasHeader name (h(k \<mapsto> v)) = (lowerName k = lowerName name \<or> hasHeader name h)"
  by (auto simp add: hasHeader_def)

lemma hasHeader_absent: "\<not> hasHeader name h \<Longrightarrow> h name = None"
  by (cases "h name") (auto simp add: hasHeader_def)

lemma exactlyOneAuth_added:
  assumes "leavesAuthToCredential auth h"
  shows "exactlyOneAuth auth (addAuthorizationHeaderIfUnspecified h auth)"
    and "exactlyOneAuth auth (addUserAgent env (addAuthorizationHeaderIfUnspecified h auth))"
proof -
  from assms have none: "h ''Authorization'' = None"
    by (simp add: leavesAuthToCredential_def tokenAuth_def hasHeader_absent)
  from assms none
  show "exactlyOneAuth auth (addAuthorizationHeaderIfUnspecified h auth)"
    and "exactlyOneAuth auth (addUserAgent env (addAuthorizationHeaderIfUnspecified h auth))"
    by (auto simp add: leavesAuthToCredential_def exactlyOneAuth_def tokenAuth_def keyAuth_def
        addUserAgent_def addAuthorizationHeaderIfUnspecified_def hasHeader_upd lowerName_facts
        split: ApiCredentials.splits)
qed

lemma leavesAuthToCredential_empty: "leavesAuthToCredential auth Map.empty"
  by (simp add: leavesAuthToCredential_def tokenAuth_def keyAuth_def hasHeader_empty
      split: ApiCredentials.splits)

text \<open>
  Claim C1, as the specification has it, fails: the transport only looks for a caller's
  \<^verbatim>\<open>Authorization\<close> header, so a caller who passes \<^verbatim>\<open>X-Auth-Key\<close> and
  \<^verbatim>\<open>X-Auth-Email\<close> headers of their own and holds a token credential sends both forms.
\<close>

theorem exactly_one_auth_form_counterexample:
  "\<not> tokenAuth (cloneHeaders (init_headers (sampleInit (HeadersRecord [''X-Auth-Key'' \<mapsto> ''key-0'', ''X-Auth-Email'' \<mapsto> ''b@example.com''])))) \<and>
   map (tokenAuth \<circ> req_headers)
     (fetched (fst (performApiFetch (sampleEnv (ApiToken ''t0'') (sampleResponse True 200 ''OK'' ''[]'')) ''/zones'' (sampleInit (HeadersRecord [''X-Auth-Key'' \<mapsto> ''key-0'', ''X-Auth-Email'' \<mapsto> ''b@example.com''])) None None))) = [True] \<and>
   map (keyAuth \<circ> req_headers)
     (fetched (fst (performApiFetch (sampleEnv (ApiToken ''t0'') (sampleResponse True 200 ''OK'' ''[]'')) ''/zones'' (sampleInit (HeadersRecord [''X-Auth-Key'' \<mapsto> ''key-0'', ''X-Auth-Email'' \<mapsto> ''b@example.com''])) None None))) = [True] \<and>
   map (exactlyOneAuth (ApiToken ''t0'') \<circ> req_headers)
     (fetched (fst (performApiFetch (sampleEnv (ApiToken ''t0'') (sampleResponse True 200 ''OK'' ''[]'')) ''/zones'' (sampleInit (HeadersRecord [''X-Auth-Key'' \<mapsto> ''key-0'', ''X-Auth-Email'' \<mapsto> ''b@example.com''])) None None))) = [False]"
  by (simp add: fetched_performApiFetch fetched_fetchKVGetValue fetched_fetchR2Objects
      fetched_fetchWorker sampleEnv_def sampleInit_def cloneHeaders_def fromEntries_def
      startsWith_def addUserAgent_def addAuthorizationHeaderIfUnspecified_def
      hasHeader_upd hasHeader_empty lowerName_facts
      exactlyOneAuth_def tokenAuth_def keyAuth_def)

text \<open>
  Claim C1, amended. Header names are compared without regard to case. When the
  caller's headers hold no \<^verbatim>\<open>Authorization\<close> header and, for a token credential,
  not both of \<^verbatim>\<open>X-Auth-Key\<close> and \<^verbatim>\<open>X-Auth-Email\<close>, every request that
  \<^verbatim>\<open>performApiFetch\<close>, \<^verbatim>\<open>fetchR2Objects\<close> or \<^verbatim>\<open>fetchWorker\<close> sends carries
  exactly one authentication form: the \<^verbatim>\<open>Authorization\<close> header and not the key
  pair for a token credential, the key pair and no \<^verbatim>\<open>Authorization\<close> header for a
  key/email credential. The request of \<^verbatim>\<open>fetchKVGetValue\<close>, which takes no headers
  from its caller, always does.
\<close>

theorem exactly_one_auth_form:
  "(\<forall>request \<in> set (fetched (fst (fetchKVGetValue env accountId namespaceId key))).
      exactlyOneAuth (requireApiToken env) (req_headers request)) \<and>
   (leavesAuthToCredential (requireApiToken env) (cloneHeaders (init_headers init)) \<longrightarrow>
      (\<forall>request \<in> set (fetched (fst (performApiFetch env resource init queryParams abortSignal)) @
                          fetched (fst (fetchR2Objects env resource init)) @
                          fetched (fst (fetchWorker env resource init))).
         exactlyOneAuth (requireApiToken env) (req_headers request)))"
proof (intro conjI impI)
  have "exactlyOneAuth (requireApiToken env)
          (addAuthorizationHeaderIfUnspecified Map.empty (requireApiToken env))"
    by (rule exactlyOneAuth_added(1) [OF leavesAuthToCredential_empty])
  then show "\<forall>request \<in> set (fetched (fst (fetchKVGetValue env accountId namespaceId key))).
      exactlyOneAuth (requireApiToken env) (req_headers request)"
    by (simp add: fetched_fetchKVGetValue)
next
  assume "leavesAuthToCredential (requireApiToken env) (cloneHeaders (init_headers init))"
  then have "exactlyOneAuth (requireApiToken env)
          (addUserAgent env
             (addAuthorizationHeaderIfUnspecified (cloneHeaders (init_headers init))
                (requireApiToken env)))"
    by (rule exactlyOneAuth_added(2))
  then show "\<forall>request \<in> set (fetched (fst (performApiFetch env resource init queryParams abortSignal)) @
                          fetched (fst (fetchR2Objects env resource init)) @
                          fetched (fst (fetchWorker env resource init))).
         exactlyOneAuth (requireApiToken env) (req_headers request)"
    by (auto simp add: fetched_performApiFetch fetched_fetchR2Objects fetched_fetchWorker
        split: if_splits)
qed

theorem exactly_one_auth_form_witness:
  "leavesAuthToCredential (ApiToken ''t0'') (cloneHeaders (init_headers (sampleInit HeadersUndefined))) \<and>
   map (exactlyOneAuth (ApiToken ''t0'') \<circ> req_headers)
     (fetched (fst (fetchKVGetValue (sampleEnv (ApiToken ''t0'') (sampleResponse True 200 ''OK'' ''[]'')) ''acc'' ''ns'' ''k1'')) @
      fetched (fst (performApiFetch (sampleEnv (ApiToken ''t0'') (sampleResponse True 200 ''OK'' ''[]'')) ''/zones'' (sampleInit HeadersUndefined) None None)) @
      fetched (fst (fetchR2Objects (sampleEnv (ApiToken ''t0'') (sampleResponse True 200 ''OK'' ''[]'')) ''/zones'' (sampleInit HeadersUndefined))) @
      fetched (fst (fetchWorker (sampleEnv (ApiToken ''t0'') (sampleResponse True 200 ''OK'' ''[]'')) ''/zones'' (sampleInit HeadersUndefined)))) = [True, True, True, True] \<and>
   leavesAuthToCredential (AuthKeyEmail ''key-1'' ''a@example.com'')
     (cloneHeaders (init_headers (sampleInit (HeadersInstance [(''x-auth-key'', ''key-0''), (''x-auth-email'', ''b@example.com'')])))) \<and>
   map (exactlyOneAuth (AuthKeyEmail ''key-1'' ''a@example.com'') \<circ> req_headers)
     (fetched (fst (fetchKVGetValue (sampleEnv (AuthKeyEmail ''key-1'' ''a@example.com'') (sampleResponse True 200 ''OK'' ''[]'')) ''acc'' ''ns'' ''k1'')) @
      fetched (fst (performApiFetch (sampleEnv (AuthKeyEmail ''key-1'' ''a@example.com'') (sampleResponse True 200 ''OK'' ''[]'')) ''/zones'' (sampleInit (HeadersInstance [(''x-auth-key'', ''key-0''), (''x-auth-email'', ''b@example.com'')])) None None)) @
      fetched (fst (fetchR2Objects (sampleEnv (AuthKeyEmail ''key-1'' ''a@example.com'') (sampleResponse True 200 ''OK'' ''[]'')) ''/zones'' (sampleInit (HeadersInstance [(''x-auth-key'', ''key-0''), (''x-auth-email'', ''b@example.com'')])))) @
      fetched (fst (fetchWorker (sampleEnv (AuthKeyEmail ''key-1'' ''a@example.com'') (sampleResponse True 200 ''OK'' ''[]'')) ''/zones'' (sampleInit (HeadersInstance [(''x-auth-key'', ''key-0''), (''x-auth-email'', ''b@example.com'')]))))) = [True, True, True, True]"
  using
    exactly_one_auth_form
      [of "sampleEnv (ApiToken ''t0'') (sampleResponse True 200 ''OK'' ''[]'')" "''acc''" "''ns''" "''k1''" "sampleInit HeadersUndefined" "''/zones''" None None]
    exactly_one_auth_form
      [of "sampleEnv (AuthKeyEmail ''key-1'' ''a@example.com'') (sampleResponse True 200 ''OK'' ''[]'')" "''acc''" "''ns''" "''k1''" "sampleInit (HeadersInstance [(''x-auth-key'', ''key-0''), (''x-auth-email'', ''b@example.com'')])" "''/zones''" None None]
  by (simp add: fetched_performApiFetch fetched_fetchKVGetValue fetched_fetchR2Objects
      fetched_fetchWorker sampleEnv_def sampleInit_def cloneHeaders_def fromEntries_def
      startsWith_def addUserAgent_def addAuthorizationHeaderIfUnspecified_def
      hasHeader_upd hasHeader_empty lowerName_facts
      leavesAuthToCredential_def exactlyOneAuth_def tokenAuth_def keyAuth_def)







subsection \<open>The raw value fetch\<close>

text \<open>
  Claim C5. When the user is logged in, \<^verbatim>\<open>fetchKVGetValue\<close> issues one request, to
  the values URL of the key. If the response is ok, the call returns what
  \<^verbatim>\<open>arrayBuffer()\<close> gives, untouched by any parser; if it is not, the call throws an
  \<^verbatim>\<open>Error\<close> whose message names that URL, the status code and the status text.
\<close>

theorem fetchKVGetValue_outcome:
  assumes "loginOrRefreshIfRequired env"
  shows "\<exists>request.
     fetched (fst (fetchKVGetValue env accountId namespaceId key)) = [request] \<and>
     req_url request = getCloudflareApiBaseUrl env @ ''/accounts/'' @ accountId @
        ''/storage/kv/namespaces/'' @ namespaceId @ ''/values/'' @ key \<and>
     snd (fetchKVGetValue env accountId namespaceId key) =
       (if resp_ok (fetch env request) then Inr (resp_arrayBuffer (fetch env request))
        else Inl (Error (''Failed to fetch '' @ req_url request @ '' - '' @
               toString (resp_status (fetch env request)) @ '': '' @
               resp_statusText (fetch env request) @ '');'')))"
  using assms by (simp add: fetchKVGetValue_def requireLoggedIn_def Let_def)

theorem fetchKVGetValue_outcome_witness:
  "loginOrRefreshIfRequired
     (sampleEnv (ApiToken ''t0'') (sampleResponse False 404 ''Not Found'' ''nope'')) \<and>
   snd (fetchKVGetValue
     (sampleEnv (ApiToken ''t0'') (sampleResponse False 404 ''Not Found'' ''nope''))
     ''acc'' ''ns'' ''k1'') =
     Inl (Error (''Failed to fetch https://api.cloudflare.com/client/v4/accounts/acc'' @
                 ''/storage/kv/namespaces/ns/values/k1 - 404: Not Found);'')) \<and>
   snd (fetchKVGetValue
     (sampleEnv (ApiToken ''t0'') (sampleResponse True 200 ''OK'' ''hi''))
     ''acc'' ''ns'' ''k1'') = Inr [104, 105]"
  using
    fetchKVGetValue_outcome
      [of "sampleEnv (ApiToken ''t0'') (sampleResponse False 404 ''Not Found'' ''nope'')"
          "''acc''" "''ns''" "''k1''"]
    fetchKVGetValue_outcome
      [of "sampleEnv (ApiToken ''t0'') (sampleResponse True 200 ''OK'' ''hi'')"
          "''acc''" "''ns''" "''k1''"]
  by (auto simp add: sampleEnv_def sampleResponse_def toString_digits)


subsection \<open>One round trip per call\<close>

text \<open>
  Claim C4. Whatever the environment and the arguments, the effects of one call of
  \<^verbatim>\<open>performApiFetch\<close>, \<^verbatim>\<open>fetchInternal\<close>, \<^verbatim>\<open>fetchKVGetValue\<close>,
  \<^verbatim>\<open>fetchR2Objects\<close> or \<^verbatim>\<open>fetchWorker\<close> hold at most one call of
  \<^verbatim>\<open>fetch\<close>: no request is retried or issued again. Each operation is a function
  of the environment and its arguments alone and hands no state on to a later call.
\<close>

theorem at_most_one_fetch:
  "length (fetched (fst (performApiFetch env resource init queryParams abortSignal))) \<le> 1 \<and>
   length (fetched (fst (fetchInternal env resource init queryParams abortSignal))) \<le> 1 \<and>
   length (fetched (fst (fetchKVGetValue env accountId namespaceId key))) \<le> 1 \<and>
   length (fetched (fst (fetchR2Objects env resource bodyInit))) \<le> 1 \<and>
   length (fetched (fst (fetchWorker env resource bodyInit))) \<le> 1"
  by (simp add: fetched_fetchInternal fetched_performApiFetch fetched_fetchKVGetValue
      fetched_fetchR2Objects fetched_fetchWorker)

theorem at_most_one_fetch_witness:
  "length (fetched (fst (performApiFetch
     (sampleEnv (ApiToken ''t0'') (sampleResponse True 200 ''OK'' ''[]''))
     ''/zones'' (sampleInit HeadersUndefined) None None))) = 1 \<and>
   length (fetched (fst (fetchInternal
     (sampleEnv (ApiToken ''t0'') (sampleResponse True 200 ''OK'' ''[]''))
     ''/zones'' (sampleInit HeadersUndefined) None None))) = 1 \<and>
   length (fetched (fst (fetchKVGetValue
     (sampleEnv (ApiToken ''t0'') (sampleResponse True 200 ''OK'' ''[]'')) ''acc'' ''ns'' ''k1''))) = 1 \<and>
   length (fetched (fst (fetchR2Objects
     (sampleEnv (ApiToken ''t0'') (sampleResponse True 200 ''OK'' ''[]''))
     ''/zones'' (sampleInit HeadersUndefined)))) = 1 \<and>
   length (fetched (fst (fetchWorker
     (sampleEnv (ApiToken ''t0'') (sampleResponse True 200 ''OK'' ''[]''))
     ''/zones'' (sampleInit HeadersUndefined)))) = 1 \<and>
   length (fetched (fst (fetchInternal
     (sampleEnv (ApiToken ''t0'') (sampleResponse True 200 ''OK'' ''[]''))
     ''zones'' (sampleInit HeadersUndefined) None None))) = 0"
  using at_most_one_fetch
      [of "sampleEnv (ApiToken ''t0'') (sampleResponse True 200 ''OK'' ''[]'')" "''/zones''"
          "sampleInit HeadersUndefined" None None "''acc''" "''ns''" "''k1''"
          "sampleInit HeadersUndefined"]
  by (simp add: fetched_fetchInternal fetched_performApiFetch fetched_fetchKVGetValue
      fetched_fetchR2Objects fetched_fetchWorker sampleEnv_def startsWith_def)


subsection \<open>The assertion on the resource path\<close>

text \<open>
  Claim C8. For a resource that does not start with a slash, \<^verbatim>\<open>performApiFetch\<close>
  and \<^verbatim>\<open>fetchInternal\<close> throw the assertion failure with no effect before it: no
  login check, no log line, no request. For a resource that starts with a slash
  neither of them ever throws an assertion failure.
\<close>

theorem assert_leading_slash:
  "(\<not> startsWith resource ''/'' \<longrightarrow>
      performApiFetch env resource init queryParams abortSignal =
        ([], Inl (AssertionError
           (''CF API fetch - resource path must start with a \"/\" but got \"'' @ resource @ ''\"''))) \<and>
      fetchInternal env resource init queryParams abortSignal =
        ([], Inl (AssertionError
           (''CF API fetch - resource path must start with a \"/\" but got \"'' @ resource @ ''\"'')))) \<and>
   (startsWith resource ''/'' \<longrightarrow>
      (\<forall>msg. snd (performApiFetch env resource init queryParams abortSignal) \<noteq> Inl (AssertionError msg) \<and>
             snd (fetchInternal env resource init queryParams abortSignal) \<noteq> Inl (AssertionError msg)))"
  by (simp add: fetchInternal_def performApiFetch_def requireLoggedIn_def Let_def
      split: option.splits BodyInit.splits)

theorem assert_leading_slash_witness:
  "\<not> startsWith ''zones'' ''/'' \<and>
   performApiFetch (sampleEnv (ApiToken ''t0'') (sampleResponse True 200 ''OK'' ''[]''))
     ''zones'' (sampleInit HeadersUndefined) None None =
     ([], Inl (AssertionError
        ''CF API fetch - resource path must start with a \"/\" but got \"zones\"'')) \<and>
   fetchInternal (sampleEnv (ApiToken ''t0'') (sampleResponse True 200 ''OK'' ''[]''))
     ''zones'' (sampleInit HeadersUndefined) None None =
     ([], Inl (AssertionError
        ''CF API fetch - resource path must start with a \"/\" but got \"zones\"'')) \<and>
   startsWith ''/zones'' ''/'' \<and>
   snd (performApiFetch (sampleEnv (ApiToken ''t0'') (sampleResponse True 200 ''OK'' ''[]''))
     ''/zones'' (sampleInit HeadersUndefined) None None) =
     Inr (sampleResponse True 200 ''OK'' ''[]'') \<and>
   snd (fetchInternal (sampleEnv (ApiToken ''t0'') (sampleResponse True 200 ''OK'' ''[]''))
     ''/zones'' (sampleInit HeadersUndefined) None None) = Inr (JArray [])"
  using
    assert_leading_slash
      [of "''zones''" "sampleEnv (ApiToken ''t0'') (sampleResponse True 200 ''OK'' ''[]'')"
          "sampleInit HeadersUndefined" None None]
    assert_leading_slash
      [of "''/zones''" "sampleEnv (ApiToken ''t0'') (sampleResponse True 200 ''OK'' ''[]'')"
          "sampleInit HeadersUndefined" None None]
  by (simp add: fetchInternal_def performApiFetch_def requireLoggedIn_def Let_def
      sampleEnv_def sampleInit_def sampleResponse_def sampleParse_def startsWith_def)


subsection \<open>Parsing the response\<close>

text \<open>
  Claim C3, as the specification has it, fails in its first half: \<^verbatim>\<open>fetchInternal\<close>
  returns whatever the body parses to and does not make an envelope of it. A response
  whose body is the JSON text of the empty array comes back as the empty array, which
  has none of the four fields.
\<close>

theorem fetchInternal_envelope_counterexample:
  "snd (fetchInternal (sampleEnv (ApiToken ''t0'') (sampleResponse True 200 ''OK'' ''[]''))
     ''/zones'' (sampleInit HeadersUndefined) None None) = Inr (JArray []) \<and>
   \<not> isEnvelope (JArray [])"
  by (simp add: fetchInternal_def performApiFetch_def requireLoggedIn_def Let_def
      sampleEnv_def sampleInit_def sampleResponse_def sampleParse_facts startsWith_def
      isEnvelope_def)


text \<open>
  Claim C3, amended. \<^verbatim>\<open>fetchInternal\<close> returns the parse of the response body as it
  is, whatever its shape, when the body parses. Only for a response with an empty body
  and status 204 or 205 does it put the envelope text with the four fields
  \<^verbatim>\<open>result\<close>, \<^verbatim>\<open>success\<close>, \<^verbatim>\<open>errors\<close>, \<^verbatim>\<open>messages\<close> in place of the body
  and return the parse of that text, instead of failing on the empty body.
\<close>

theorem fetchInternal_parse:
  assumes "snd (performApiFetch env resource init queryParams abortSignal) = Inr response"
  shows "(resp_text response = [] \<and> (resp_status response = 204 \<or> resp_status response = 205) \<longrightarrow>
            snd (fetchInternal env resource init queryParams abortSignal) =
              (case parseJSON env
                 ''{\"result\": {}, \"success\": true, \"errors\": [], \"messages\": []}'' of
                 Some v \<Rightarrow> Inr v | None \<Rightarrow> Inl ParseError)) \<and>
         (\<not> (resp_text response = [] \<and> (resp_status response = 204 \<or> resp_status response = 205)) \<longrightarrow>
            (\<forall>v. parseJSON env (resp_text response) = Some v \<longrightarrow>
               snd (fetchInternal env resource init queryParams abortSignal) = Inr v))"
proof -
  obtain t where "performApiFetch env resource init queryParams abortSignal = (t, Inr response)"
    using snd_performApiFetch [OF assms(1)] by blast
  then show ?thesis
    by (auto simp add: fetchInternal_def Let_def emptyBody_def split: option.splits)
qed


theorem fetchInternal_parse_witness:
  "snd (performApiFetch (sampleEnv (ApiToken ''t0'') (sampleResponse True 204 ''No Content'' []))
     ''/zones'' (sampleInit HeadersUndefined) None None) =
     Inr (sampleResponse True 204 ''No Content'' []) \<and>
   resp_text (sampleResponse True 204 ''No Content'' []) = [] \<and>
   resp_status (sampleResponse True 204 ''No Content'' []) = 204 \<and>
   snd (fetchInternal (sampleEnv (ApiToken ''t0'') (sampleResponse True 204 ''No Content'' []))
     ''/zones'' (sampleInit HeadersUndefined) None None) =
     Inr (JObject [(''result'', JObject []), (''success'', JBool True),
                   (''errors'', JArray []), (''messages'', JArray [])]) \<and>
   snd (performApiFetch (sampleEnv (ApiToken ''t0'') (sampleResponse True 200 ''OK'' ''[]''))
     ''/zones'' (sampleInit HeadersUndefined) None None) =
     Inr (sampleResponse True 200 ''OK'' ''[]'') \<and>
   parseJSON (sampleEnv (ApiToken ''t0'') (sampleResponse True 200 ''OK'' ''[]''))
     (resp_text (sampleResponse True 200 ''OK'' ''[]'')) = Some (JArray []) \<and>
   snd (fetchInternal (sampleEnv (ApiToken ''t0'') (sampleResponse True 200 ''OK'' ''[]''))
     ''/zones'' (sampleInit HeadersUndefined) None None) = Inr (JArray [])"
  using
    fetchInternal_parse
      [of "sampleEnv (ApiToken ''t0'') (sampleResponse True 204 ''No Content'' [])"
          "''/zones''" "sampleInit HeadersUndefined" None None
          "sampleResponse True 204 ''No Content'' []"]
    fetchInternal_parse
      [of "sampleEnv (ApiToken ''t0'') (sampleResponse True 200 ''OK'' ''[]'')"
          "''/zones''" "sampleInit HeadersUndefined" None None
          "sampleResponse True 200 ''OK'' ''[]''"]
  by (simp add: fetchInternal_def performApiFetch_def requireLoggedIn_def Let_def
      sampleEnv_def sampleInit_def sampleResponse_def sampleParse_facts startsWith_def
      emptyBody_def)


text \<open>
  Claim C9. When the body of the response does not parse, and the response is not the
  empty-bodied 204 or 205, \<^verbatim>\<open>fetchInternal\<close> throws an \<^verbatim>\<open>APIError\<close> whose status is
  the HTTP status of the response and whose first note is the truncated body: the body
  itself when it has at most 100 characters, otherwise its first 100 characters followed
  by \<^verbatim>\<open>... (length = N)\<close> with \<open>N\<close> the length of the whole body.
\<close>

theorem fetchInternal_malformed:
  assumes "snd (performApiFetch env resource init queryParams abortSignal) = Inr response"
    and "parseJSON env (resp_text response) = None"
    and "\<not> (resp_text response = [] \<and> (resp_status response = 204 \<or> resp_status response = 205))"
  shows "\<exists>note1.
     snd (fetchInternal env resource init queryParams abortSignal) =
       Inl (APIError ''Received a malformed response from the API''
              [note1,
               (case init_method init of Some m \<Rightarrow> m | None \<Rightarrow> ''GET'') @ '' '' @ resource @
                 '' -> '' @ toString (resp_status response) @ '' '' @ resp_statusText response]
              (resp_status response)) \<and>
     note1 = truncate (resp_text response) 100 \<and>
     (length (resp_text response) \<le> 100 \<longrightarrow> note1 = resp_text response) \<and>
     (100 < length (resp_text response) \<longrightarrow>
        note1 = take 100 (resp_text response) @ ''... (length = '' @
                  toString (length (resp_text response)) @ '')'')"
proof -
  obtain t where "performApiFetch env resource init queryParams abortSignal = (t, Inr response)"
    using snd_performApiFetch [OF assms(1)] by blast
  with assms(2,3) show ?thesis
    by (auto simp add: fetchInternal_def Let_def truncate_def)
qed

theorem fetchInternal_malformed_witness:
  "snd (performApiFetch (sampleEnv (ApiToken ''t0'') (sampleResponse False 502 ''Bad Gateway'' samplePage))
     ''/zones'' (sampleInit HeadersUndefined) None None) =
     Inr (sampleResponse False 502 ''Bad Gateway'' samplePage) \<and>
   parseJSON (sampleEnv (ApiToken ''t0'') (sampleResponse False 502 ''Bad Gateway'' samplePage))
     (resp_text (sampleResponse False 502 ''Bad Gateway'' samplePage)) = None \<and>
   length (resp_text (sampleResponse False 502 ''Bad Gateway'' samplePage)) = 125 \<and>
   snd (fetchInternal (sampleEnv (ApiToken ''t0'') (sampleResponse False 502 ''Bad Gateway'' samplePage))
     ''/zones'' (sampleInit HeadersUndefined) None None) =
     Inl (APIError ''Received a malformed response from the API''
       [''<!DOCTYPE html><html><head><title>502 Bad Gateway</title></head><body>'' @
        ''<h1>502 Bad Gateway</h1><p>clo... (length = 125)'',
        ''GET /zones -> 502 Bad Gateway''] 502) \<and>
   snd (performApiFetch (sampleEnv (ApiToken ''t0'') (sampleResponse True 200 ''OK'' ''nope''))
     ''/zones'' (sampleInit HeadersUndefined) None None) =
     Inr (sampleResponse True 200 ''OK'' ''nope'') \<and>
   parseJSON (sampleEnv (ApiToken ''t0'') (sampleResponse True 200 ''OK'' ''nope''))
     (resp_text (sampleResponse True 200 ''OK'' ''nope'')) = None \<and>
   snd (fetchInternal (sampleEnv (ApiToken ''t0'') (sampleResponse True 200 ''OK'' ''nope''))
     ''/zones'' (sampleInit HeadersUndefined) None None) =
     Inl (APIError ''Received a malformed response from the API''
       [''nope'', ''GET /zones -> 200 OK''] 200)"
  using
    fetchInternal_malformed
      [of "sampleEnv (ApiToken ''t0'') (sampleResponse False 502 ''Bad Gateway'' samplePage)"
          "''/zones''" "sampleInit HeadersUndefined" None None
          "sampleResponse False 502 ''Bad Gateway'' samplePage"]
    fetchInternal_malformed
      [of "sampleEnv (ApiToken ''t0'') (sampleResponse True 200 ''OK'' ''nope'')"
          "''/zones''" "sampleInit HeadersUndefined" None None
          "sampleResponse True 200 ''OK'' ''nope''"]
  by (simp add: fetchInternal_def performApiFetch_def requireLoggedIn_def Let_def
      sampleEnv_def sampleInit_def sampleResponse_def samplePage_facts
      startsWith_def toString_digits sampleParse_facts truncate_def)



subsection \<open>The binary object fetch\<close>

text \<open>
  Claim C6. When the user is logged in, \<^verbatim>\<open>fetchR2Objects\<close> issues one request and
  its outcome is one of three: the response itself, unparsed, when it is ok and has a
  body; \<^verbatim>\<open>null\<close> when that is not so and the status is 404; in every other case,
  an ok response without a body among them, a thrown \<^verbatim>\<open>Error\<close> whose message names
  the resource, the status code and the status text.
\<close>

theorem fetchR2Objects_outcome:
  assumes "loginOrRefreshIfRequired env"
  shows "\<exists>request.
     fetched (fst (fetchR2Objects env resource bodyInit)) = [request] \<and>
     snd (fetchR2Objects env resource bodyInit) =
       (if resp_ok (fetch env request) \<and> resp_body (fetch env request) \<noteq> None
        then Inr (Some (fetch env request))
        else if resp_status (fetch env request) = 404 then Inr None
        else Inl (Error (''Failed to fetch '' @ resource @ '' - '' @
               toString (resp_status (fetch env request)) @ '': '' @
               resp_statusText (fetch env request) @ '');'')))"
  using assms by (simp add: fetchR2Objects_def requireLoggedIn_def Let_def)

theorem fetchR2Objects_outcome_witness:
  "loginOrRefreshIfRequired (sampleEnv (ApiToken ''t0'') (sampleResponse True 200 ''OK'' ''data'')) \<and>
   snd (fetchR2Objects (sampleEnv (ApiToken ''t0'') (sampleResponse True 200 ''OK'' ''data''))
     ''/r2/obj'' (sampleInit HeadersUndefined)) = Inr (Some (sampleResponse True 200 ''OK'' ''data'')) \<and>
   snd (fetchR2Objects (sampleEnv (ApiToken ''t0'') (sampleResponse False 404 ''Not Found'' []))
     ''/r2/obj'' (sampleInit HeadersUndefined)) = Inr None \<and>
   snd (fetchR2Objects (sampleEnv (ApiToken ''t0'') (sampleResponse False 500 ''Internal Server Error'' []))
     ''/r2/obj'' (sampleInit HeadersUndefined)) =
     Inl (Error ''Failed to fetch /r2/obj - 500: Internal Server Error);'') \<and>
   snd (fetchR2Objects
     (sampleEnv (ApiToken ''t0'') ((sampleResponse True 200 ''OK'' [])\<lparr> resp_body := None \<rparr>))
     ''/r2/obj'' (sampleInit HeadersUndefined)) =
     Inl (Error ''Failed to fetch /r2/obj - 200: OK);'')"
  using
    fetchR2Objects_outcome
      [of "sampleEnv (ApiToken ''t0'') (sampleResponse True 200 ''OK'' ''data'')"
          "''/r2/obj''" "sampleInit HeadersUndefined"]
    fetchR2Objects_outcome
      [of "sampleEnv (ApiToken ''t0'') (sampleResponse False 404 ''Not Found'' [])"
          "''/r2/obj''" "sampleInit HeadersUndefined"]
    fetchR2Objects_outcome
      [of "sampleEnv (ApiToken ''t0'') (sampleResponse False 500 ''Internal Server Error'' [])"
          "''/r2/obj''" "sampleInit HeadersUndefined"]
    fetchR2Objects_outcome
      [of "sampleEnv (ApiToken ''t0'') ((sampleResponse True 200 ''OK'' [])\<lparr> resp_body := None \<rparr>)"
          "''/r2/obj''" "sampleInit HeadersUndefined"]
  by (auto simp add: sampleEnv_def sampleResponse_def toString_digits)

subsection \<open>The worker script fetch\<close>

text \<open>
  Claim C7. When the user is logged in, \<^verbatim>\<open>fetchWorker\<close> issues one request. A
  response that is not ok or has no body makes it throw. Otherwise, when the
  content type starts with \<^verbatim>\<open>multipart\<close>, the form data of the response (of the
  response built again from its text, when the response has no \<^verbatim>\<open>formData\<close>) gives
  the modules, one file per entry: an entry that passes \<^verbatim>\<open>instanceof File\<close> is
  taken as it is, any other entry, a string or a file object of another class, is made
  the only part of a new file named after its field; and the entrypoint is the
  \<^verbatim>\<open>cf-entrypoint\<close> header, or \<^verbatim>\<open>src/index.js\<close> without that header. When the
  content type is absent or does not start with \<^verbatim>\<open>multipart\<close>, the result is the
  single file \<^verbatim>\<open>index.js\<close> holding the text of the response, made with the type
  option \<^verbatim>\<open>text\<close>, with entrypoint \<^verbatim>\<open>index.js\<close>.
\<close>

theorem fetchWorker_outcome:
  assumes "loginOrRefreshIfRequired env"
  shows "\<exists>request response response'.
     fetched (fst (fetchWorker env resource bodyInit)) = [request] \<and>
     response = fetch env request \<and>
     response' = (if resp_formData response = None
                  then newResponse env (resp_text response) response else response) \<and>
     (\<not> resp_ok response \<or> resp_body response = None \<longrightarrow>
        snd (fetchWorker env resource bodyInit) =
          Inl (Error (''Failed to fetch '' @ resource @ '' - '' @
               toString (resp_status response) @ '': '' @ resp_statusText response @ '');''))) \<and>
     (resp_ok response \<and> resp_body response \<noteq> None \<longrightarrow>
        (\<forall>contentType form.
           hdr_get (resp_headers response) ''content-type'' = Some contentType \<and>
           startsWith contentType ''multipart'' \<and> resp_formData response' = Some form \<longrightarrow>
           snd (fetchWorker env resource bodyInit) =
             Inr \<lparr> entrypoint =
                     (case hdr_get (resp_headers response') ''cf-entrypoint'' of
                        Some e \<Rightarrow> e | None \<Rightarrow> ''src/index.js''),
                   modules =
                     map (\<lambda>(filename, contents).
                            case contents of
                              FileValue f \<Rightarrow> f
                            | FileLikeValue f \<Rightarrow> File filename [FilePart f] []
                            | StringValue s \<Rightarrow> File filename [StringPart s] [])
                         form \<rparr>) \<and>
        ((\<forall>contentType. hdr_get (resp_headers response) ''content-type'' = Some contentType
                         \<longrightarrow> \<not> startsWith contentType ''multipart'') \<longrightarrow>
           snd (fetchWorker env resource bodyInit) =
             Inr \<lparr> entrypoint = ''index.js'',
                   modules = [File ''index.js'' [StringPart (resp_text response)]
                                (fileType env ''text'')] \<rparr>))"
  using assms
  by (auto simp add: fetchWorker_def requireLoggedIn_def Let_def newFile_def
      split: option.splits)





theorem fetchWorker_outcome_witness:
  "loginOrRefreshIfRequired (sampleEnv (ApiToken ''t0'') (sampleResponse True 200 ''OK'' ''data'')) \<and>
   snd (fetchWorker
     (sampleEnv (ApiToken ''t0'') (sampleResponse False 500 ''Internal Server Error'' []))
     ''/workers/w'' (sampleInit HeadersUndefined)) =
     Inl (Error ''Failed to fetch /workers/w - 500: Internal Server Error);'') \<and>
   snd (fetchWorker
     (sampleEnv (ApiToken ''t0'') ((sampleResponse True 200 ''OK'' [])\<lparr> resp_body := None \<rparr>))
     ''/workers/w'' (sampleInit HeadersUndefined)) =
     Inl (Error ''Failed to fetch /workers/w - 200: OK);'') \<and>
   snd (fetchWorker
     (sampleEnv (ApiToken ''t0'')
        (sampleMultipart [(''content-type'', ''multipart/form-data; boundary=b''),
                          (''cf-entrypoint'', ''main.js'')]))
     ''/workers/w'' (sampleInit HeadersUndefined)) =
     Inr \<lparr> entrypoint = ''main.js'',
           modules =
             [File ''index.js''
                [FilePart (File ''blob'' [StringPart ''export default {}'']
                             ''application/javascript+module'')] [],
              File ''lib.wasm'' [StringPart ''asm''] ''application/wasm'',
              File ''README'' [StringPart ''hello''] []] \<rparr> \<and>
   snd (fetchWorker
     (sampleEnv (ApiToken ''t0'')
        (sampleMultipart [(''content-type'', ''multipart/form-data; boundary=b'')]))
     ''/workers/w'' (sampleInit HeadersUndefined)) =
     Inr \<lparr> entrypoint = ''src/index.js'',
           modules =
             [File ''index.js''
                [FilePart (File ''blob'' [StringPart ''export default {}'']
                             ''application/javascript+module'')] [],
              File ''lib.wasm'' [StringPart ''asm''] ''application/wasm'',
              File ''README'' [StringPart ''hello''] []] \<rparr> \<and>
   snd (fetchWorker
     (sampleEnv (ApiToken ''t0'') (sampleMultipart [(''content-type'', ''text/javascript'')]))
     ''/workers/w'' (sampleInit HeadersUndefined)) =
     Inr \<lparr> entrypoint = ''index.js'',
           modules = [File ''index.js'' [StringPart ''--b--''] []] \<rparr> \<and>
   snd (fetchWorker (sampleEnv (ApiToken ''t0'') (sampleResponse True 200 ''OK'' ''data''))
     ''/workers/w'' (sampleInit HeadersUndefined)) =
     Inr \<lparr> entrypoint = ''index.js'',
           modules = [File ''index.js'' [StringPart ''data''] []] \<rparr>"
  using
    fetchWorker_outcome
      [of "sampleEnv (ApiToken ''t0'') (sampleResponse False 500 ''Internal Server Error'' [])"
          "''/workers/w''" "sampleInit HeadersUndefined"]
    fetchWorker_outcome
      [of "sampleEnv (ApiToken ''t0'') ((sampleResponse True 200 ''OK'' [])\<lparr> resp_body := None \<rparr>)"
          "''/workers/w''" "sampleInit HeadersUndefined"]
    fetchWorker_outcome
      [of "sampleEnv (ApiToken ''t0'')
             (sampleMultipart [(''content-type'', ''multipart/form-data; boundary=b''),
                               (''cf-entrypoint'', ''main.js'')])"
          "''/workers/w''" "sampleInit HeadersUndefined"]
    fetchWorker_outcome
      [of "sampleEnv (ApiToken ''t0'')
             (sampleMultipart [(''content-type'', ''multipart/form-data; boundary=b'')])"
          "''/workers/w''" "sampleInit HeadersUndefined"]
    fetchWorker_outcome
      [of "sampleEnv (ApiToken ''t0'') (sampleMultipart [(''content-type'', ''text/javascript'')])"
          "''/workers/w''" "sampleInit HeadersUndefined"]
    fetchWorker_outcome
      [of "sampleEnv (ApiToken ''t0'') (sampleResponse True 200 ''OK'' ''data'')"
          "''/workers/w''" "sampleInit HeadersUndefined"]
  by (simp add: sampleEnv_def sampleResponse_def sampleMultipart_def sampleModules_def
      sampleHeaders_def startsWith_def toString_digits)

subsection \<open>What the debug log shows of the credential\<close>

text \<open>
  Claim C10 says that two runs which differ only in the credential log the same
  headers. The code deletes the \<^verbatim>\<open>Authorization\<close> entry from the logged copy and
  nothing else, so with a key/email credential the logged headers hold the
  \<^verbatim>\<open>X-Auth-Key\<close> value; two runs of \<^verbatim>\<open>performApiFetch\<close> that differ only in
  the API key log different header objects.
\<close>

theorem key_credential_logged:
  "map (headerValue ''X-Auth-Key'')
     (loggedHeaders (fst (performApiFetch
        (sampleEnv (AuthKeyEmail ''key-1'' ''a@example.com'') (sampleResponse True 200 ''OK'' ''[]''))
        ''/zones'' (sampleInit HeadersUndefined) None None))) = [Some ''key-1''] \<and>
   map (headerValue ''X-Auth-Key'')
     (loggedHeaders (fst (performApiFetch
        (sampleEnv (AuthKeyEmail ''key-2'' ''a@example.com'') (sampleResponse True 200 ''OK'' ''[]''))
        ''/zones'' (sampleInit HeadersUndefined) None None))) = [Some ''key-2''] \<and>
   loggedHeaders (fst (performApiFetch
        (sampleEnv (AuthKeyEmail ''key-1'' ''a@example.com'') (sampleResponse True 200 ''OK'' ''[]''))
        ''/zones'' (sampleInit HeadersUndefined) None None)) \<noteq>
   loggedHeaders (fst (performApiFetch
        (sampleEnv (AuthKeyEmail ''key-2'' ''a@example.com'') (sampleResponse True 200 ''OK'' ''[]''))
        ''/zones'' (sampleInit HeadersUndefined) None None))"
proof -
  have 1: "map (headerValue ''X-Auth-Key'')
     (loggedHeaders (fst (performApiFetch
        (sampleEnv (AuthKeyEmail ''key-1'' ''a@example.com'') (sampleResponse True 200 ''OK'' ''[]''))
        ''/zones'' (sampleInit HeadersUndefined) None None))) = [Some ''key-1'']"
    by (simp add: performApiFetch_def requireLoggedIn_def Let_def sampleEnv_def sampleInit_def
        cloneHeaders_def startsWith_def headerValue_def addUserAgent_def
        addAuthorizationHeaderIfUnspecified_def)
  have 2: "map (headerValue ''X-Auth-Key'')
     (loggedHeaders (fst (performApiFetch
        (sampleEnv (AuthKeyEmail ''key-2'' ''a@example.com'') (sampleResponse True 200 ''OK'' ''[]''))
        ''/zones'' (sampleInit HeadersUndefined) None None))) = [Some ''key-2'']"
    by (simp add: performApiFetch_def requireLoggedIn_def Let_def sampleEnv_def sampleInit_def
        cloneHeaders_def startsWith_def headerValue_def addUserAgent_def
        addAuthorizationHeaderIfUnspecified_def)
  from 1 2 show ?thesis by auto
qed


text \<open>
  With a token credential the logged request headers do not depend on the token.
\<close>

lemma token_not_logged:
  assumes "requireApiToken env = ApiToken token"
  shows "loggedHeaders (fst (performApiFetch env resource init queryParams abortSignal)) =
         loggedHeaders (fst (performApiFetch (env\<lparr> requireApiToken := ApiToken token' \<rparr>)
                               resource init queryParams abortSignal))"
  using assms
  by (simp add: performApiFetch_def requireLoggedIn_def Let_def loggedHeaders_append
      cloneHeaders_def addUserAgent_def addAuthorizationHeaderIfUnspecified_def
      split: option.splits BodyInit.splits)


end
